theory Spec2Isabelle
  imports Complex_Main
begin

section \<open>The reaction game of \<open>src/views/GameView.vue\<close>\<close>

text \<open>
  The component keeps its state in a handful of refs and mutates them from three interval
  callbacks, one click handler and the start, stop and reset buttons. The model passes the
  state explicitly: every callback is a function from the state before to the state after.
  JavaScript runs each callback to completion, so an execution of the component is a
  sequence of such functions.
\<close>

subsection \<open>Data model\<close>

text \<open>
  \<open>interface Cell\<close>. The field \<open>id\<close> is called \<open>id_cell\<close> here, since \<open>id\<close> is
  the identity function of HOL. \<open>timeLeft\<close> is a JavaScript number that only ever holds
  integers (a multiple of 1000, less multiples of 100), hence \<open>int\<close>.
\<close>

record Cell =
  id_cell :: nat
  row :: nat
  col :: nat
  isActive :: bool
  timeLeft :: int
  isAnimating :: bool

text \<open>
  The refs of the component. A timer handle is the number returned by \<open>setInterval\<close>,
  \<open>None\<close> is \<open>null\<close>. The refs \<open>isFullscreen\<close> and \<open>cellSize\<close> belong to the layout
  code (\<open>calculateBoardSize\<close>, \<open>toggleFullscreen\<close>), which none of the functions below
  reads; they are left out.
\<close>

record game =
  level :: int
  score :: int
  totalSpawned :: int
  gameBoard :: "Cell list"
  gameInterval :: "nat option"
  updateInterval :: "nat option"
  gameTimer :: "nat option"
  gameTimeLeft :: int
  isGameRunning :: bool

definition BOARD_ROWS :: nat where
  "BOARD_ROWS = 6"

definition BOARD_COLS :: nat where
  "BOARD_COLS = 12"

subsection \<open>JavaScript numbers\<close>

text \<open>
  Every number of the component is an IEEE 754 double. Counters and cell times are small
  integers, on which \<open>+\<close>, \<open>-\<close> and \<open>*\<close> are exact, so they are \<open>int\<close>. The two
  divisions (\<open>5000 / spawnRate\<close> and \<open>score / totalSpawned\<close>) and the product of the
  second quotient by 100 are not exact: the result is the double nearest to the exact
  value, ties to the even significand. \<open>double\<close> computes that double as a rational, for
  the normal range (no overflow to infinity, no subnormals: the operands here are far from
  both).
\<close>

fun bitlen :: "nat \<Rightarrow> nat" where
  "bitlen n = (if n = 0 then 0 else Suc (bitlen (n div 2)))"

declare bitlen.simps [simp del]

text \<open>\<open>ilog2 a\<close> is the exponent \<open>e\<close> with \<open>2 ^ e \<le> a < 2 ^ (e + 1)\<close>, for \<open>a > 0\<close>.\<close>

definition ilog2 :: "rat \<Rightarrow> int" where
  "ilog2 a = (if 1 \<le> a then int (bitlen (nat \<lfloor>a\<rfloor>)) - 1
              else - int (bitlen (nat (\<lceil>1 / a\<rceil> - 1))))"

definition pow2 :: "int \<Rightarrow> rat" where
  "pow2 e = (if 0 \<le> e then 2 ^ nat e else 1 / 2 ^ nat (- e))"

definition roundTiesToEven :: "rat \<Rightarrow> int" where
  "roundTiesToEven x =
     (let f = \<lfloor>x\<rfloor>; d = x - of_int f
      in if d < 1 / 2 then f else if 1 / 2 < d then f + 1 else if even f then f else f + 1)"

text \<open>A double has a significand of 53 bits: scale into \<open>[2 ^ 52, 2 ^ 53)\<close>, round, scale back.\<close>

definition double :: "rat \<Rightarrow> rat" where
  "double x =
     (if x = 0 then 0
      else let a = \<bar>x\<bar>; e = ilog2 a - 52
           in sgn x * of_int (roundTiesToEven (a / pow2 e)) * pow2 e)"

text \<open>
  \<open>Math.round\<close> returns the nearest integer, and of two equally near ones the greater.
\<close>

definition Math_round :: "rat \<Rightarrow> int" where
  "Math_round x = \<lfloor>x + 1 / 2\<rfloor>"

text \<open>A finite number, or the \<open>Infinity\<close> that a division by zero yields.\<close>

datatype jsnumber = Finite rat | Infinity

datatype jserror = TypeError

subsection \<open>Difficulty parameters\<close>

definition whiteDuration :: "int \<Rightarrow> int" where
  "whiteDuration lvl = max 1 (6 - lvl)"

definition spawnRate :: "int \<Rightarrow> int" where
  "spawnRate lvl = min 10 (lvl * 2)"

text \<open>
  \<open>Math.max(500, 5000 / spawnRate.value)\<close>. A rate of 0 (level 0) gives
  \<open>5000 / 0 = Infinity\<close>, and \<open>Math.max(500, Infinity) = Infinity\<close>.
\<close>

definition spawnInterval :: "int \<Rightarrow> jsnumber" where
  "spawnInterval lvl =
     (if spawnRate lvl = 0 then Infinity
      else Finite (max 500 (double (5000 / of_int (spawnRate lvl)))))"

subsection \<open>The board\<close>

definition newCell :: "nat \<Rightarrow> nat \<Rightarrow> Cell" where
  "newCell r c =
     \<lparr>id_cell = r * BOARD_COLS + c, row = r, col = c,
      isActive = False, timeLeft = 0, isAnimating = False\<rparr>"

text \<open>The two nested loops of \<open>initBoard\<close> push the cells row by row.\<close>

definition freshBoard :: "Cell list" where
  "freshBoard = concat (map (\<lambda>r. map (\<lambda>c. newCell r c) [0..<BOARD_COLS]) [0..<BOARD_ROWS])"

definition initBoard :: "game \<Rightarrow> game" where
  "initBoard s = s\<lparr>gameBoard := freshBoard\<rparr>"

text \<open>The initial values of the refs, and the state after \<open>onMounted\<close> has built the board.\<close>

definition initialGame :: game where
  "initialGame =
     \<lparr>level = 1, score = 0, totalSpawned = 0, gameBoard = [],
      gameInterval = None, updateInterval = None, gameTimer = None,
      gameTimeLeft = 60, isGameRunning = False\<rparr>"

definition mountedGame :: game where
  "mountedGame = initBoard initialGame"

subsection \<open>Spawning\<close>

text \<open>
  \<open>availableCells\<close> holds the inactive cell objects of the board, in board order. The
  objects are shared with the board, so the model keeps their board indices.
\<close>

definition availableCells :: "game \<Rightarrow> nat list" where
  "availableCells s = filter (\<lambda>i. \<not> isActive (gameBoard s ! i)) [0..<length (gameBoard s)]"

text \<open>
  The argument \<open>k\<close> is the value of \<open>Math.floor(Math.random() * availableCells.length)\<close>.
  \<open>Math.random()\<close> lies in \<open>[0, 1)\<close>, so \<open>k\<close> is below the length; for any other \<open>k\<close>
  the array access would give \<open>undefined\<close> and the assignment to its field would throw.
\<close>

definition spawnWhiteBlock :: "nat \<Rightarrow> game \<Rightarrow> jserror + game" where
  "spawnWhiteBlock k s =
     (let available = availableCells s
      in if length available = 0 then Inr s
         else if k < length available then
           (let i = available ! k;
                randomCell = (gameBoard s ! i)
                  \<lparr>isActive := True, timeLeft := whiteDuration (level s) * 1000\<rparr>
            in Inr (s\<lparr>gameBoard := (gameBoard s)[i := randomCell],
                      totalSpawned := totalSpawned s + 1\<rparr>))
         else Inl TypeError)"

subsection \<open>Clicking\<close>

text \<open>
  The template attaches \<open>clickCell(cell)\<close> to every cell of \<open>gameBoard\<close>; \<open>i\<close> is the
  board index of the clicked cell (equal to its \<open>id\<close>). There is no handler for an index
  outside the board. The function is declared \<open>async\<close> but awaits nothing: its body runs
  synchronously.
\<close>

definition clickCell :: "nat \<Rightarrow> game \<Rightarrow> game" where
  "clickCell i s =
     (if i < length (gameBoard s) then
        (let cell = gameBoard s ! i
         in if \<not> isActive cell \<or> \<not> isGameRunning s then s
            else s\<lparr>gameBoard := (gameBoard s)[i := cell\<lparr>isAnimating := True\<rparr>],
                   score := score s + 1\<rparr>)
      else s)"

text \<open>
  The callback that \<open>clickCell\<close> passes to \<open>setTimeout(\<dots>, 200)\<close>. It writes to the cell
  object that was clicked. The model applies it to the board on which the click happened;
  once \<open>initBoard\<close> has replaced the board, the object is no longer part of the state and
  the callback changes nothing that the state holds.
\<close>

definition clickCellTimeout :: "nat \<Rightarrow> game \<Rightarrow> game" where
  "clickCellTimeout i s =
     (if i < length (gameBoard s) then
        s\<lparr>gameBoard := (gameBoard s)
             [i := (gameBoard s ! i)\<lparr>isActive := False, isAnimating := False, timeLeft := 0\<rparr>]\<rparr>
      else s)"

subsection \<open>Decay\<close>

text \<open>The body of the \<open>forEach\<close> in \<open>updateGame\<close>, for one cell.\<close>

definition updateCell :: "Cell \<Rightarrow> Cell" where
  "updateCell c =
     (if isActive c \<and> \<not> isAnimating c then
        (let c1 = c\<lparr>timeLeft := timeLeft c - 100\<rparr>
         in if timeLeft c1 \<le> 0 then c1\<lparr>isActive := False, timeLeft := 0\<rparr> else c1)
      else c)"

definition updateGame :: "game \<Rightarrow> game" where
  "updateGame s = s\<lparr>gameBoard := map updateCell (gameBoard s)\<rparr>"

subsection \<open>Start, stop, reset\<close>

text \<open>
  \<open>if (gameInterval.value)\<close> tests the handle for truthiness: \<open>null\<close> and \<open>0\<close> are
  falsy. \<open>setInterval\<close> returns integers greater than zero. \<open>clearInterval\<close> cancels
  the interval inside the browser; what the state records is the ref set to \<open>null\<close>.
\<close>

definition truthy :: "nat option \<Rightarrow> bool" where
  "truthy h = (case h of None \<Rightarrow> False | Some n \<Rightarrow> n \<noteq> 0)"

definition stopGame :: "game \<Rightarrow> game" where
  "stopGame s =
     (let s1 = s\<lparr>isGameRunning := False\<rparr>;
          s2 = (if truthy (gameInterval s1) then s1\<lparr>gameInterval := None\<rparr> else s1);
          s3 = (if truthy (updateInterval s2) then s2\<lparr>updateInterval := None\<rparr> else s2)
      in if truthy (gameTimer s3) then s3\<lparr>gameTimer := None\<rparr> else s3)"

text \<open>
  \<open>h1\<close>, \<open>h2\<close> and \<open>h3\<close> are the handles that the three \<open>setInterval\<close> calls return.
  The fullscreen request and the layout computation in between touch only the layout refs.
\<close>

definition startGame :: "nat \<Rightarrow> nat \<Rightarrow> nat \<Rightarrow> game \<Rightarrow> game" where
  "startGame h1 h2 h3 s =
     (initBoard (stopGame s))
       \<lparr>score := 0, totalSpawned := 0, gameTimeLeft := 60, isGameRunning := True,
        gameInterval := Some h1, updateInterval := Some h2, gameTimer := Some h3\<rparr>"

definition resetGame :: "game \<Rightarrow> game" where
  "resetGame s =
     (initBoard (stopGame s))
       \<lparr>score := 0, totalSpawned := 0, gameTimeLeft := 60, isGameRunning := False\<rparr>"

subsection \<open>Hit rate\<close>

definition hitRate :: "game \<Rightarrow> int" where
  "hitRate s =
     (if totalSpawned s = 0 then 0
      else Math_round (double (double (of_int (score s) / of_int (totalSpawned s)) * 100)))"

subsection \<open>Callbacks in sequence\<close>

text \<open>
  The callbacks that change the board and the counters during a round: the spawn interval
  (which spawns only while the game runs), the decay interval, a click, and the timeout of
  a click. When the browser fires which of them is not modelled; a trace lists them in the
  order in which they ran.
\<close>

datatype event = SpawnTick nat | DecayTick | Click nat | ClickTimeout nat

fun step :: "event \<Rightarrow> game \<Rightarrow> jserror + game" where
  "step (SpawnTick k) s = (if isGameRunning s then spawnWhiteBlock k s else Inr s)"
| "step DecayTick s = Inr (updateGame s)"
| "step (Click i) s = Inr (clickCell i s)"
| "step (ClickTimeout i) s = Inr (clickCellTimeout i s)"

fun run :: "event list \<Rightarrow> game \<Rightarrow> jserror + game" where
  "run [] s = Inr s"
| "run (e # es) s = (case step e s of Inl err \<Rightarrow> Inl err | Inr s' \<Rightarrow> run es s')"

subsection \<open>The cell invariant\<close>

definition cellOk :: "Cell \<Rightarrow> bool" where
  "cellOk c = (\<not> (\<not> isActive c \<and> 0 < timeLeft c) \<and> 0 \<le> timeLeft c)"

definition boardOk :: "game \<Rightarrow> bool" where
  "boardOk s = list_all cellOk (gameBoard s)"

subsection \<open>Timer handles and sample states\<close>

text \<open>
  The handles that the browser hands out are positive. A state is \<open>timersOk\<close> when every
  handle stored in it is one the browser can have returned.
\<close>

definition handleOk :: "nat option \<Rightarrow> bool" where
  "handleOk h = (case h of None \<Rightarrow> True | Some n \<Rightarrow> 0 < n)"

definition timersOk :: "game \<Rightarrow> bool" where
  "timersOk s =
     (handleOk (gameInterval s) \<and> handleOk (updateInterval s) \<and> handleOk (gameTimer s))"

text \<open>
  A round just started at level 1 (the three intervals got the handles 1, 2 and 3), and
  the same round after the spawner has put a block on cell 5.
\<close>

definition runningGame :: game where
  "runningGame = startGame 1 2 3 mountedGame"

definition oneBlockGame :: game where
  "oneBlockGame =
     runningGame\<lparr>gameBoard := (gameBoard runningGame)
                    [5 := (gameBoard runningGame ! 5)\<lparr>isActive := True, timeLeft := 5000\<rparr>],
                  totalSpawned := 1\<rparr>"

section \<open>Properties\<close>

subsection \<open>Auxiliary facts\<close>

lemma length_freshBoard: "length freshBoard = 72"
  by (simp add: freshBoard_def BOARD_ROWS_def BOARD_COLS_def length_concat comp_def sum_list_triv)

lemma freshBoard_cells:
  "c \<in> set freshBoard \<Longrightarrow> \<not> isActive c \<and> timeLeft c = 0 \<and> \<not> isAnimating c"
  by (auto simp: freshBoard_def newCell_def)

lemma freshBoard_map: "freshBoard = map (\<lambda>i. newCell (i div 12) (i mod 12)) [0..<72]"
  by code_simp

lemma freshBoard_nth: "i < 72 \<Longrightarrow> freshBoard ! i = newCell (i div 12) (i mod 12)"
  by (simp add: freshBoard_map)

lemma availableCells_empty_iff:
  "(availableCells s = []) = (\<forall>c \<in> set (gameBoard s). isActive c)"
  by (auto simp: availableCells_def filter_empty_conv all_set_conv_all_nth)

lemma availableCells_nth:
  assumes "k < length (availableCells s)"
  shows "availableCells s ! k < length (gameBoard s)
         \<and> \<not> isActive (gameBoard s ! (availableCells s ! k))"
proof -
  have "availableCells s ! k \<in> set (availableCells s)"
    using assms by simp
  then show ?thesis
    by (simp add: availableCells_def)
qed

lemma availableCells_fresh: "gameBoard s = freshBoard \<Longrightarrow> availableCells s = [0..<72]"
  by (simp add: availableCells_def length_freshBoard freshBoard_nth newCell_def cong: filter_cong)

lemma stopGame_timersOk:
  "timersOk s \<Longrightarrow>
   stopGame s = s\<lparr>isGameRunning := False, gameInterval := None,
                  updateInterval := None, gameTimer := None\<rparr>"
  by (cases "gameInterval s"; cases "updateInterval s"; cases "gameTimer s")
     (simp_all add: stopGame_def truthy_def timersOk_def handleOk_def Let_def)

lemma stopGame_fields:
  "gameBoard (stopGame s) = gameBoard s" "score (stopGame s) = score s"
  "totalSpawned (stopGame s) = totalSpawned s" "gameTimeLeft (stopGame s) = gameTimeLeft s"
  "level (stopGame s) = level s" "isGameRunning (stopGame s) = False"
  by (simp_all add: stopGame_def Let_def)

lemma runningGame_simps:
  "gameBoard runningGame = freshBoard" "score runningGame = 0" "totalSpawned runningGame = 0"
  "isGameRunning runningGame" "level runningGame = 1" "timersOk runningGame"
  "gameTimeLeft runningGame = 60" "gameInterval runningGame = Some 1"
  "updateInterval runningGame = Some 2" "gameTimer runningGame = Some 3"
  by (simp_all add: runningGame_def startGame_def initBoard_def mountedGame_def initialGame_def
        stopGame_def truthy_def Let_def timersOk_def handleOk_def)

lemma oneBlockGame_simps:
  "length (gameBoard oneBlockGame) = 72"
  "gameBoard oneBlockGame ! 5 = (newCell 0 5)\<lparr>isActive := True, timeLeft := 5000\<rparr>"
  "gameBoard oneBlockGame ! 0 = newCell 0 0"
  "score oneBlockGame = 0" "totalSpawned oneBlockGame = 1" "isGameRunning oneBlockGame"
  "level oneBlockGame = 1" "timersOk oneBlockGame"
  by (simp_all add: oneBlockGame_def runningGame_simps length_freshBoard freshBoard_nth
        timersOk_def handleOk_def)

text \<open>The spawner, choosing index 5 of the 72 free cells of a fresh board, fills cell 5.\<close>

lemma spawn_cell5: "spawnWhiteBlock 5 runningGame = Inr oneBlockGame"
  by (simp add: spawnWhiteBlock_def availableCells_fresh runningGame_simps oneBlockGame_def
        whiteDuration_def Let_def)

lemma spawnInterval_values:
  "spawnInterval 1 = Finite 2500"
  "spawnInterval 2 = Finite 1250"
  "spawnInterval 3 = Finite (7330077518506667 / 8796093022208)"
  "spawnInterval 4 = Finite 625"
  "spawnInterval 5 = Finite 500"
  by code_simp+

lemma level_cases:
  "1 \<le> lvl \<Longrightarrow> lvl \<le> 5 \<Longrightarrow> lvl = 1 \<or> lvl = 2 \<or> lvl = 3 \<or> lvl = 4 \<or> lvl = (5::int)"
  by arith

lemma updateCell_funpow:
  "isActive c \<Longrightarrow> \<not> isAnimating c \<Longrightarrow> 0 < timeLeft c \<Longrightarrow>
   (updateCell ^^ n) c =
     (if int n * 100 < timeLeft c then c\<lparr>timeLeft := timeLeft c - int n * 100\<rparr>
      else c\<lparr>isActive := False, timeLeft := 0\<rparr>)"
proof (induction n)
  case 0
  then show ?case by simp
next
  case (Suc n)
  then show ?case
    by (simp add: updateCell_def Let_def)
qed

lemma updateGame_funpow:
  "(updateGame ^^ n) s = s\<lparr>gameBoard := map (updateCell ^^ n) (gameBoard s)\<rparr>"
  by (induction n) (simp_all add: updateGame_def)

lemma run_decay: "run (replicate n DecayTick) s = Inr ((updateGame ^^ n) s)"
  by (induction n arbitrary: s) (simp_all add: funpow_swap1)

text \<open>The block on cell 5 after \<open>n\<close> decay ticks.\<close>

lemma oneBlockGame_decay:
  "gameBoard ((updateGame ^^ n) oneBlockGame) ! 5 =
     (if int n * 100 < 5000
      then (newCell 0 5)\<lparr>isActive := True, timeLeft := 5000 - int n * 100\<rparr>
      else (newCell 0 5)\<lparr>isActive := False, timeLeft := 0\<rparr>)"
proof -
  have "gameBoard ((updateGame ^^ n) oneBlockGame) ! 5
          = (updateCell ^^ n) ((newCell 0 5)\<lparr>isActive := True, timeLeft := 5000\<rparr>)"
    by (simp add: updateGame_funpow oneBlockGame_simps)
  then show ?thesis
    by (simp add: updateCell_funpow newCell_def)
qed

text \<open>The first click on the block of cell 5.\<close>

lemma click_cell5:
  "clickCell 5 oneBlockGame =
     oneBlockGame\<lparr>gameBoard := (gameBoard oneBlockGame)
                    [5 := (gameBoard oneBlockGame ! 5)\<lparr>isAnimating := True\<rparr>],
                  score := 1\<rparr>"
  by (simp add: clickCell_def Let_def oneBlockGame_simps)

lemma cellOk_updateCell: "cellOk c \<Longrightarrow> cellOk (updateCell c)"
  by (simp add: cellOk_def updateCell_def Let_def)

lemma list_all_update: "list_all P xs \<Longrightarrow> P v \<Longrightarrow> list_all P (xs[i := v])"
  by (metis list_all_iff set_update_subset_insert subsetD insertE)

lemma boardOk_freshBoard: "list_all cellOk freshBoard"
  by (simp add: list_all_iff cellOk_def freshBoard_cells)

lemma boardOk_spawn: "boardOk s \<Longrightarrow> spawnWhiteBlock k s = Inr s' \<Longrightarrow> boardOk s'"
  by (auto simp: boardOk_def spawnWhiteBlock_def Let_def cellOk_def whiteDuration_def
        intro!: list_all_update split: if_splits)

lemma boardOk_updateGame: "boardOk s \<Longrightarrow> boardOk (updateGame s)"
  by (simp add: boardOk_def updateGame_def list_all_iff cellOk_updateCell)

lemma boardOk_clickCell: "boardOk s \<Longrightarrow> boardOk (clickCell i s)"
  by (auto simp: boardOk_def clickCell_def Let_def cellOk_def list_all_length nth_list_update)

lemma boardOk_clickCellTimeout: "boardOk s \<Longrightarrow> boardOk (clickCellTimeout i s)"
  by (auto simp: boardOk_def clickCellTimeout_def cellOk_def intro!: list_all_update)

subsection \<open>Rounding to a double\<close>

lemma bitlen_0: "bitlen 0 = 0"
  by (simp add: bitlen.simps)

lemma bitlen_pos: "0 < n \<Longrightarrow> bitlen n = Suc (bitlen (n div 2))"
  by (subst bitlen.simps) simp

lemma bitlen_bounds: "0 < n \<Longrightarrow> 2 ^ (bitlen n - 1) \<le> n \<and> n < 2 ^ bitlen n"
proof (induction n rule: bitlen.induct)
  case (1 n)
  show ?case
  proof (cases "n div 2 = 0")
    case True
    with "1.prems" have "n = 1" by (simp add: div_eq_0_iff)
    then show ?thesis by (simp add: bitlen_pos bitlen_0)
  next
    case False
    then have pos: "0 < n div 2" by simp
    with "1.IH" "1.prems" have ih: "2 ^ (bitlen (n div 2) - 1) \<le> n div 2 \<and> n div 2 < 2 ^ bitlen (n div 2)"
      by simp
    have bl: "bitlen n = Suc (bitlen (n div 2))"
      using "1.prems" by (rule bitlen_pos)
    have b1: "1 \<le> bitlen (n div 2)"
      using pos by (simp add: bitlen_pos)
    then have "(2::nat) ^ bitlen (n div 2) = 2 * 2 ^ (bitlen (n div 2) - 1)"
      by (metis Suc_diff_1 Suc_le_eq One_nat_def power_Suc)
    with ih have lo: "2 ^ bitlen (n div 2) \<le> n"
      by linarith
    from ih have hi: "n < 2 * 2 ^ bitlen (n div 2)"
      by linarith
    show ?thesis
      using lo hi by (simp add: bl)
  qed
qed

lemma pow2_powi: "pow2 e = 2 powi e"
  by (simp add: pow2_def power_int_def inverse_eq_divide power_one_over)

lemma pow2_pos: "0 < pow2 e"
  by (simp add: pow2_powi)

lemma ilog2_lower: "0 < a \<Longrightarrow> pow2 (ilog2 a) \<le> a"
proof (cases "1 \<le> a")
  case True
  assume "0 < a"
  let ?N = "nat \<lfloor>a\<rfloor>"
  have N: "0 < ?N" using True by simp
  have "2 ^ (bitlen ?N - 1) \<le> ?N" using bitlen_bounds [OF N] by simp
  then have "(2::rat) ^ (bitlen ?N - 1) \<le> of_nat ?N"
    by (metis of_nat_le_iff of_nat_numeral of_nat_power)
  also have "\<dots> \<le> a" using True by simp
  finally have le: "(2::rat) ^ (bitlen ?N - 1) \<le> a" .
  have "1 \<le> bitlen ?N" using N by (simp add: bitlen_pos)
  then have "ilog2 a = int (bitlen ?N - 1)"
    using True by (simp add: ilog2_def)
  then show ?thesis using le by (simp add: pow2_def)
next
  case False
  assume pos: "0 < a"
  define C where "C = \<lceil>1 / a\<rceil>"
  define M where "M = nat (C - 1)"
  have y: "1 < 1 / a" using False pos by simp
  then have C2: "2 \<le> C" unfolding C_def by linarith
  then have M: "0 < M" by (simp add: M_def)
  have "M < 2 ^ bitlen M" using bitlen_bounds [OF M] by simp
  then have "Suc M \<le> 2 ^ bitlen M" by (rule Suc_leI)
  then have "(of_nat (Suc M) :: rat) \<le> 2 ^ bitlen M"
    by (metis of_nat_le_iff of_nat_numeral of_nat_power)
  moreover have "1 / a \<le> of_nat (Suc M)"
  proof -
    have "int (Suc M) = C"
      using C2 by (simp add: M_def)
    then have "(of_nat (Suc M) :: rat) = of_int C"
      by (metis of_int_of_nat_eq)
    moreover have "1 / a \<le> of_int C"
      unfolding C_def by (rule le_of_int_ceiling)
    ultimately show ?thesis by simp
  qed
  ultimately have "1 / a \<le> 2 ^ bitlen M" by linarith
  then have "1 / 2 ^ bitlen M \<le> a"
    using pos by (simp add: field_simps)
  moreover have "ilog2 a = - int (bitlen M)"
    using False by (simp add: ilog2_def M_def C_def)
  ultimately show ?thesis
    by (simp add: pow2_powi power_int_minus inverse_eq_divide)
qed

lemma ilog2_upper: "0 < a \<Longrightarrow> a < pow2 (ilog2 a + 1)"
proof (cases "1 \<le> a")
  case True
  assume "0 < a"
  define N where "N = nat \<lfloor>a\<rfloor>"
  have N: "0 < N" using True by (simp add: N_def)
  have "N < 2 ^ bitlen N" using bitlen_bounds [OF N] by simp
  then have "Suc N \<le> 2 ^ bitlen N" by (rule Suc_leI)
  then have "(of_nat (Suc N) :: rat) \<le> 2 ^ bitlen N"
    by (metis of_nat_le_iff of_nat_numeral of_nat_power)
  moreover have "a < of_nat (Suc N)"
  proof -
    have "int (Suc N) = \<lfloor>a\<rfloor> + 1"
      using True by (simp add: N_def)
    then have "(of_nat (Suc N) :: rat) = of_int (\<lfloor>a\<rfloor> + 1)"
      by (metis of_int_of_nat_eq)
    moreover have "a < of_int (\<lfloor>a\<rfloor> + 1)"
      by linarith
    ultimately show ?thesis by simp
  qed
  ultimately have "a < 2 ^ bitlen N" by linarith
  moreover have "ilog2 a + 1 = int (bitlen N)"
    using True by (simp add: ilog2_def N_def)
  ultimately show ?thesis
    by (simp add: pow2_def)
next
  case False
  assume pos: "0 < a"
  define C where "C = \<lceil>1 / a\<rceil>"
  define M where "M = nat (C - 1)"
  have y: "1 < 1 / a" using False pos by simp
  then have C2: "2 \<le> C" unfolding C_def by linarith
  then have M: "0 < M" by (simp add: M_def)
  have b1: "1 \<le> bitlen M" using M by (simp add: bitlen_pos)
  have "2 ^ (bitlen M - 1) \<le> M" using bitlen_bounds [OF M] by simp
  then have "(2::rat) ^ (bitlen M - 1) \<le> of_nat M"
    by (metis of_nat_le_iff of_nat_numeral of_nat_power)
  moreover have "of_nat M < 1 / a"
  proof -
    have "int M = C - 1"
      using C2 by (simp add: M_def)
    then have "(of_nat M :: rat) = of_int (C - 1)"
      by (metis of_int_of_nat_eq)
    moreover have "of_int (C - 1) < 1 / a"
      unfolding C_def by linarith
    ultimately show ?thesis by simp
  qed
  ultimately have "(2::rat) ^ (bitlen M - 1) < 1 / a" by linarith
  then have "a < 1 / 2 ^ (bitlen M - 1)"
    using pos by (simp add: field_simps)
  moreover have "ilog2 a + 1 = - int (bitlen M - 1)"
    using False b1 by (simp add: ilog2_def M_def C_def)
  ultimately show ?thesis
    by (simp add: pow2_powi power_int_minus inverse_eq_divide)
qed

text \<open>The scaled value that \<open>double\<close> rounds has 53 bits before the point.\<close>

lemma double_significand:
  assumes "0 < a"
  shows "2 ^ 52 \<le> a / pow2 (ilog2 a - 52) \<and> a / pow2 (ilog2 a - 52) < 2 ^ 53"
proof -
  have p: "pow2 (ilog2 a - 52) = pow2 (ilog2 a) / 2 ^ 52"
    by (simp add: pow2_powi power_int_diff)
  have q: "pow2 (ilog2 a + 1) = pow2 (ilog2 a) * 2"
    by (simp add: pow2_powi power_int_add)
  have pos: "0 < pow2 (ilog2 a)" by (rule pow2_pos)
  have lo: "pow2 (ilog2 a) \<le> a" using assms by (rule ilog2_lower)
  have hi: "a < pow2 (ilog2 a) * 2" using ilog2_upper [OF assms] by (simp add: q)
  show ?thesis
    using pos lo hi by (simp add: p field_simps)
qed

lemma roundTiesToEven_near: "\<bar>of_int (roundTiesToEven x) - x\<bar> \<le> 1 / 2"
proof -
  define f where "f = \<lfloor>x\<rfloor>"
  define d where "d = x - of_int f"
  have d: "0 \<le> d" "d < 1"
    unfolding d_def f_def by linarith+
  have x: "x = of_int f + d"
    by (simp add: d_def)
  have r: "roundTiesToEven x =
             (if d < 1 / 2 then f else if 1 / 2 < d then f + 1 else if even f then f else f + 1)"
    by (simp add: roundTiesToEven_def Let_def f_def d_def)
  have "\<bar>of_int (roundTiesToEven x) - (of_int f + d)\<bar> \<le> 1 / 2"
    unfolding r using d by (auto simp: abs_if)
  then show ?thesis
    by (simp add: d_def)
qed

lemma double_error:
  assumes "0 < x"
  shows "\<bar>double x - x\<bar> \<le> x / 2 ^ 53"
proof -
  let ?e = "ilog2 x - 52"
  let ?p = "pow2 ?e"
  let ?n = "roundTiesToEven (x / ?p)"
  have p: "0 < ?p" by (rule pow2_pos)
  have d: "double x = of_int ?n * ?p"
    using assms by (simp add: double_def Let_def)
  have "\<bar>of_int ?n - x / ?p\<bar> \<le> 1 / 2"
    by (rule roundTiesToEven_near)
  then have "\<bar>of_int ?n - x / ?p\<bar> * ?p \<le> 1 / 2 * ?p"
    using p by (simp only: mult_le_cancel_right_pos)
  moreover have "\<bar>of_int ?n - x / ?p\<bar> * ?p = \<bar>of_int ?n * ?p - x\<bar>"
  proof -
    have "\<bar>of_int ?n - x / ?p\<bar> * ?p = \<bar>(of_int ?n - x / ?p) * ?p\<bar>"
      using p by (simp add: abs_mult)
    also have "(of_int ?n - x / ?p) * ?p = of_int ?n * ?p - x"
      using p by (simp add: field_simps)
    finally show ?thesis .
  qed
  ultimately have e1: "\<bar>double x - x\<bar> \<le> ?p / 2"
    by (simp add: d)
  have "?p = pow2 (ilog2 x) / 2 ^ 52"
    by (simp add: pow2_powi power_int_diff)
  moreover have "pow2 (ilog2 x) \<le> x"
    using assms by (rule ilog2_lower)
  ultimately have "?p \<le> x / 2 ^ 52"
    by (simp add: divide_right_mono)
  then have "?p / 2 \<le> x / 2 ^ 53"
    by simp
  with e1 show ?thesis
    by linarith
qed


lemma hit_value_error:
  fixes q :: rat
  assumes "0 < q"
  shows "\<bar>double (double q * 100) - 100 * q\<bar> \<le> 300 * q / 2 ^ 53"
proof -
  have e1: "\<bar>double q - q\<bar> \<le> q / 2 ^ 53"
    using assms by (rule double_error)
  have small: "q / 2 ^ 53 < q"
    using assms by simp
  have y1pos: "0 < double q"
    using e1 small by linarith
  have y1le: "double q \<le> 2 * q"
    using e1 small by linarith
  have "0 < double q * 100"
    using y1pos by simp
  then have e2: "\<bar>double (double q * 100) - double q * 100\<bar> \<le> double q * 100 / 2 ^ 53"
    by (rule double_error)
  define u where "u = q / 2 ^ 53"
  have "double q * 100 / 2 ^ 53 \<le> 200 * u"
    using y1le by (simp add: u_def)
  with e2 have e3: "\<bar>double (double q * 100) - double q * 100\<bar> \<le> 200 * u"
    by linarith
  from e1 have e4: "\<bar>double q - q\<bar> \<le> u"
    by (simp only: u_def)
  from e3 e4 have "\<bar>double (double q * 100) - 100 * q\<bar> \<le> 300 * u"
    by linarith
  then show ?thesis
    by (simp add: u_def)
qed

lemma hitRate_exact:
  fixes s t :: int
  assumes s: "0 \<le> s" "s < 2 ^ 43" and t: "0 < t"
  defines "x \<equiv> 100 * of_int s / of_int t :: rat"
  defines "h \<equiv> Math_round (double (double (of_int s / of_int t) * 100))"
  shows "(frac x \<noteq> 1 / 2 \<longrightarrow> h = round x) \<and> (frac x = 1 / 2 \<longrightarrow> h = round x \<or> h = round x - 1)"
proof (cases "s = 0")
  case True
  have "\<lfloor>1 / 2 :: rat\<rfloor> = 0"
    by linarith
  with True show ?thesis
    by (simp add: x_def h_def double_def Math_round_def)
next
  case False
  with s have spos: "0 < s" by simp
  define y where "y = double (double (of_int s / of_int t) * 100)"
  define k where "k = round x"
  define r where "r = 200 * s + t - 2 * k * t"
  have tq: "(0::rat) < of_int t" using t by simp
  have qpos: "(0::rat) < of_int s / of_int t"
    using spos t by simp
  have "\<bar>y - 100 * (of_int s / of_int t)\<bar> \<le> 300 * (of_int s / of_int t) / 2 ^ 53"
    unfolding y_def using qpos by (rule hit_value_error)
  then have err: "\<bar>y - x\<bar> \<le> 300 * of_int s / (of_int t * 2 ^ 53)"
    by (simp add: x_def)
  have "600 * s < 2 ^ 53" using s by simp
  then have "(of_int (600 * s) :: rat) < of_int (2 ^ 53)"
    by (simp only: of_int_less_iff)
  then have "600 * (of_int s :: rat) < 2 ^ 53" by simp
  then have "300 * of_int s / (of_int t * 2 ^ 53) < 1 / (2 * (of_int t :: rat))"
    using tq by (simp add: field_simps)
  with err have small: "\<bar>y - x\<bar> < 1 / (2 * of_int t)"
    by linarith
  have xr: "x + 1 / 2 - of_int k = of_int r / (2 * of_int t)"
    using tq by (simp add: x_def r_def field_simps)
  have kb: "of_int k \<le> x + 1 / 2" "x + 1 / 2 < of_int k + 1"
    unfolding k_def round_def by linarith+
  have hy: "h = \<lfloor>y + 1 / 2\<rfloor>"
    by (simp add: h_def y_def Math_round_def)
  have t1: "1 / (2 * (of_int t :: rat)) \<le> 1 / 2"
    using t by (simp add: field_simps)
  show ?thesis
  proof (intro conjI impI)
    assume nt: "frac x \<noteq> 1 / 2"
    have "x + 1 / 2 \<noteq> of_int k"
    proof
      assume "x + 1 / 2 = of_int k"
      then have xk: "x = of_int (k - 1) + 1 / 2" by simp
      then have "of_int (k - 1) \<le> x" "x < of_int (k - 1) + 1"
        by linarith+
      then have "\<lfloor>x\<rfloor> = k - 1"
        by (rule floor_unique)
      then have "frac x = 1 / 2"
        using xk by (simp add: frac_def)
      with nt show False by simp
    qed
    with kb have "0 < x + 1 / 2 - of_int k" "x + 1 / 2 - of_int k < 1" by linarith+
    then have "0 < (of_int r :: rat) / (2 * of_int t)" "(of_int r :: rat) / (2 * of_int t) < 1"
      by (simp_all only: xr)
    then have "(0::rat) < of_int r" "(of_int r :: rat) < of_int (2 * t)"
      using tq by (simp_all add: field_simps)
    then have "0 < r" "r < 2 * t"
      by (simp_all only: of_int_less_iff of_int_0_less_iff)
    then have "1 \<le> r" "r \<le> 2 * t - 1" by simp_all
    then have "(of_int 1 :: rat) \<le> of_int r" "(of_int r :: rat) \<le> of_int (2 * t - 1)"
      by (simp_all only: of_int_le_iff)
    then have "1 / (2 * of_int t) \<le> (of_int r :: rat) / (2 * of_int t)"
         "(of_int r :: rat) / (2 * of_int t) \<le> 1 - 1 / (2 * of_int t)"
      using tq by (simp_all add: field_simps)
    then have "1 / (2 * of_int t) \<le> x + 1 / 2 - of_int k"
         "x + 1 / 2 - of_int k \<le> 1 - 1 / (2 * of_int t)"
      by (simp_all only: xr)
    with small have "of_int k \<le> y + 1 / 2" "y + 1 / 2 < of_int k + 1"
      by linarith+
    then have "\<lfloor>y + 1 / 2\<rfloor> = k"
      by (simp add: floor_unique)
    then show "h = round x"
      by (simp add: hy k_def)
  next
    assume tie: "frac x = 1 / 2"
    then have "x + 1 / 2 = of_int (\<lfloor>x\<rfloor> + 1)"
      by (simp add: frac_def)
    then have "round x = \<lfloor>x\<rfloor> + 1"
      unfolding round_def by (metis floor_of_int)
    then have "x + 1 / 2 = of_int k"
      using \<open>x + 1 / 2 = of_int (\<lfloor>x\<rfloor> + 1)\<close> by (simp add: k_def)
    with small t1 have lo: "of_int (k - 1) \<le> y + 1 / 2" and hi: "y + 1 / 2 < of_int k + 1"
      by (simp_all add: abs_less_iff)
    have "\<lfloor>y + 1 / 2\<rfloor> = k \<or> \<lfloor>y + 1 / 2\<rfloor> = k - 1"
    proof (cases "y + 1 / 2 < of_int k")
      case True
      then have "y + 1 / 2 < of_int (k - 1) + 1" by simp
      with lo have "\<lfloor>y + 1 / 2\<rfloor> = k - 1"
        by (rule floor_unique)
      then show ?thesis by simp
    next
      case False
      then have "of_int k \<le> y + 1 / 2" by simp
      then have "\<lfloor>y + 1 / 2\<rfloor> = k"
        using hi by (rule floor_unique)
      then show ?thesis by simp
    qed
    then show "h = round x \<or> h = round x - 1"
      by (simp add: hy k_def)
  qed
qed


subsection \<open>Decay tick\<close>

text \<open>
  C4. A decay tick takes exactly 100 off \<open>timeLeft\<close> of every cell that is active and not
  animating, and where the result is at most 0 it makes the cell inactive with
  \<open>timeLeft = 0\<close>. Cells that are inactive or animating stay as they are, and so do the
  score, the spawn count and every other ref.
\<close>

theorem updateGame_decay:
  "length (gameBoard (updateGame s)) = length (gameBoard s)
   \<and> (\<forall>i < length (gameBoard s).
        let c = gameBoard s ! i; c' = gameBoard (updateGame s) ! i in
        (isActive c \<and> \<not> isAnimating c \<and> 0 < timeLeft c - 100
           \<longrightarrow> c' = c\<lparr>timeLeft := timeLeft c - 100\<rparr>)
        \<and> (isActive c \<and> \<not> isAnimating c \<and> timeLeft c - 100 \<le> 0
           \<longrightarrow> c' = c\<lparr>isActive := False, timeLeft := 0\<rparr>)
        \<and> (\<not> isActive c \<or> isAnimating c \<longrightarrow> c' = c))
   \<and> score (updateGame s) = score s
   \<and> totalSpawned (updateGame s) = totalSpawned s
   \<and> updateGame s = s\<lparr>gameBoard := gameBoard (updateGame s)\<rparr>"
  by (simp add: updateGame_def updateCell_def Let_def)

text \<open>
  On the board with one block on cell 5: the block loses 100 ms and cell 0 stays free.
  When the block has 100 ms left, the tick removes it.
\<close>

theorem updateGame_decay_witness:
  "gameBoard (updateGame oneBlockGame) ! 5 = (newCell 0 5)\<lparr>isActive := True, timeLeft := 4900\<rparr>
   \<and> gameBoard (updateGame oneBlockGame) ! 0 = newCell 0 0
   \<and> score (updateGame oneBlockGame) = 0 \<and> totalSpawned (updateGame oneBlockGame) = 1
   \<and> gameBoard (updateGame ((updateGame ^^ 49) oneBlockGame)) ! 5
        = (newCell 0 5)\<lparr>isActive := False, timeLeft := 0\<rparr>"
proof -
  have a: "gameBoard ((updateGame ^^ 49) oneBlockGame) ! 5
             = (newCell 0 5)\<lparr>isActive := True, timeLeft := 100\<rparr>"
    by (simp add: oneBlockGame_decay)
  have b: "length (gameBoard ((updateGame ^^ 49) oneBlockGame)) = 72"
    by (simp add: updateGame_funpow oneBlockGame_simps)
  show ?thesis
    using updateGame_decay [of oneBlockGame]
      updateGame_decay [of "(updateGame ^^ 49) oneBlockGame"]
    by (simp add: Let_def oneBlockGame_simps a b newCell_def)
qed

text \<open>
  C3, as the code has it. At level 1 the spawner puts a block with 5000 ms on cell 5. After
  \<open>n\<close> decay ticks and no click the block is still there with \<open>5000 - 100 n\<close> ms when
  \<open>n < 50\<close>, and cell 5 is inactive with \<open>timeLeft = 0\<close> when \<open>n \<ge> 50\<close>: it takes 50
  ticks of 100 ms, not 5. The decay ticks change neither \<open>totalSpawned\<close> nor \<open>score\<close>.
\<close>

theorem decay_scenario_ticks:
  "spawnWhiteBlock 5 runningGame = Inr oneBlockGame
   \<and> level oneBlockGame = 1
   \<and> gameBoard oneBlockGame ! 5 = (newCell 0 5)\<lparr>isActive := True, timeLeft := 5000\<rparr>
   \<and> run (replicate n DecayTick) oneBlockGame = Inr ((updateGame ^^ n) oneBlockGame)
   \<and> (n < 50 \<longrightarrow> isActive (gameBoard ((updateGame ^^ n) oneBlockGame) ! 5)
         \<and> timeLeft (gameBoard ((updateGame ^^ n) oneBlockGame) ! 5) = 5000 - int n * 100)
   \<and> (50 \<le> n \<longrightarrow> \<not> isActive (gameBoard ((updateGame ^^ n) oneBlockGame) ! 5)
         \<and> timeLeft (gameBoard ((updateGame ^^ n) oneBlockGame) ! 5) = 0)
   \<and> totalSpawned ((updateGame ^^ n) oneBlockGame) = totalSpawned oneBlockGame
   \<and> score ((updateGame ^^ n) oneBlockGame) = score oneBlockGame"
  by (simp add: oneBlockGame_decay spawn_cell5 run_decay oneBlockGame_simps)
     (simp add: updateGame_funpow oneBlockGame_simps)

text \<open>After 49 ticks the block has 100 ms left; the 50th tick removes it.\<close>

theorem decay_scenario_ticks_witness:
  "isActive (gameBoard ((updateGame ^^ 49) oneBlockGame) ! 5)
   \<and> timeLeft (gameBoard ((updateGame ^^ 49) oneBlockGame) ! 5) = 100
   \<and> \<not> isActive (gameBoard ((updateGame ^^ 50) oneBlockGame) ! 5)
   \<and> timeLeft (gameBoard ((updateGame ^^ 50) oneBlockGame) ! 5) = 0
   \<and> totalSpawned ((updateGame ^^ 50) oneBlockGame) = 1
   \<and> score ((updateGame ^^ 50) oneBlockGame) = 0"
  using decay_scenario_ticks [of 49] decay_scenario_ticks [of 50]
  by (simp add: oneBlockGame_simps)

text \<open>
  C3, as it is specified: after 5 decay ticks cell 5 is not inactive with \<open>timeLeft = 0\<close>;
  it is active with 4500 ms left.
\<close>

theorem decay_scenario_five_ticks:
  "spawnWhiteBlock 5 runningGame = Inr oneBlockGame
   \<and> run (replicate 5 DecayTick) oneBlockGame = Inr ((updateGame ^^ 5) oneBlockGame)
   \<and> isActive (gameBoard ((updateGame ^^ 5) oneBlockGame) ! 5)
   \<and> timeLeft (gameBoard ((updateGame ^^ 5) oneBlockGame) ! 5) = 4500
   \<and> \<not> (\<not> isActive (gameBoard ((updateGame ^^ 5) oneBlockGame) ! 5)
          \<and> timeLeft (gameBoard ((updateGame ^^ 5) oneBlockGame) ! 5) = 0)"
  by (simp add: oneBlockGame_decay spawn_cell5 run_decay)

subsection \<open>Difficulty parameters\<close>

text \<open>
  C6, as the code has it. For every level from 1 to 5: the lifetime of a block, \<open>whiteDuration * 1000\<close>
  milliseconds, is \<open>max(1, 6 - level) * 1000\<close> and strictly decreases as the level grows;
  the spawn rate is \<open>min(10, level * 2)\<close>; the spawn interval is
  \<open>max(500, 5000 / spawnRate)\<close>, the quotient being the double that JavaScript computes,
  and is at least 500. That double is the exact quotient at levels 1, 2, 4 and 5 and lies
  within \<open>2 ^ -40\<close> of it at level 3. At level 5 the three values are 1000, 10 and 500.
\<close>

theorem difficulty_parameters:
  "1 \<le> lvl \<and> lvl \<le> 5 \<longrightarrow>
     whiteDuration lvl * 1000 = max 1 (6 - lvl) * 1000
   \<and> whiteDuration lvl * 1000 = (6 - lvl) * 1000
   \<and> (\<forall>l'. lvl < l' \<and> l' \<le> 5 \<longrightarrow> whiteDuration l' * 1000 < whiteDuration lvl * 1000)
   \<and> spawnRate lvl = min 10 (lvl * 2)
   \<and> spawnInterval lvl = Finite (max 500 (double (5000 / of_int (spawnRate lvl))))
   \<and> (case spawnInterval lvl of
         Finite ms \<Rightarrow> 500 \<le> ms \<and> \<bar>ms - max 500 (5000 / of_int (spawnRate lvl))\<bar> < 1 / 2 ^ 40
       | Infinity \<Rightarrow> False)
   \<and> (lvl \<noteq> 3 \<longrightarrow> spawnInterval lvl = Finite (max 500 (5000 / of_int (spawnRate lvl))))
   \<and> whiteDuration 5 * 1000 = 1000 \<and> spawnRate 5 = 10 \<and> spawnInterval 5 = Finite 500"
proof (intro impI)
  assume r: "1 \<le> lvl \<and> lvl \<le> 5"
  have a: "whiteDuration lvl * 1000 = max 1 (6 - lvl) * 1000"
    by (simp add: whiteDuration_def)
  have b: "whiteDuration lvl * 1000 = (6 - lvl) * 1000"
    using r by (simp add: whiteDuration_def)
  have c: "\<forall>l'. lvl < l' \<and> l' \<le> 5 \<longrightarrow> whiteDuration l' * 1000 < whiteDuration lvl * 1000"
    using r by (auto simp: whiteDuration_def)
  have d: "spawnRate lvl = min 10 (lvl * 2)"
    by (simp add: spawnRate_def)
  have e: "spawnInterval lvl = Finite (max 500 (double (5000 / of_int (spawnRate lvl))))"
    using r by (auto simp: spawnInterval_def spawnRate_def)
  have f: "case spawnInterval lvl of
         Finite ms \<Rightarrow> 500 \<le> ms \<and> \<bar>ms - max 500 (5000 / of_int (spawnRate lvl))\<bar> < 1 / 2 ^ 40
       | Infinity \<Rightarrow> False"
    using level_cases [of lvl] r
    by (auto simp: spawnInterval_values spawnRate_def)
  have g: "lvl \<noteq> 3 \<longrightarrow> spawnInterval lvl = Finite (max 500 (5000 / of_int (spawnRate lvl)))"
    using level_cases [of lvl] r
    by (auto simp: spawnInterval_values spawnRate_def)
  have h: "whiteDuration 5 * 1000 = 1000 \<and> spawnRate 5 = 10 \<and> spawnInterval 5 = Finite 500"
    by (simp add: whiteDuration_def spawnRate_def spawnInterval_values)
  from a b c d e f g h show "whiteDuration lvl * 1000 = max 1 (6 - lvl) * 1000
   \<and> whiteDuration lvl * 1000 = (6 - lvl) * 1000
   \<and> (\<forall>l'. lvl < l' \<and> l' \<le> 5 \<longrightarrow> whiteDuration l' * 1000 < whiteDuration lvl * 1000)
   \<and> spawnRate lvl = min 10 (lvl * 2)
   \<and> spawnInterval lvl = Finite (max 500 (double (5000 / of_int (spawnRate lvl))))
   \<and> (case spawnInterval lvl of
         Finite ms \<Rightarrow> 500 \<le> ms \<and> \<bar>ms - max 500 (5000 / of_int (spawnRate lvl))\<bar> < 1 / 2 ^ 40
       | Infinity \<Rightarrow> False)
   \<and> (lvl \<noteq> 3 \<longrightarrow> spawnInterval lvl = Finite (max 500 (5000 / of_int (spawnRate lvl))))
   \<and> whiteDuration 5 * 1000 = 1000 \<and> spawnRate 5 = 10 \<and> spawnInterval 5 = Finite 500"
    by blast
qed

text \<open>Level 3: 3000 ms, 6 blocks per five seconds, the double nearest to 833.33 ms.\<close>

theorem difficulty_parameters_witness:
  "whiteDuration 3 * 1000 = 3000 \<and> spawnRate 3 = 6
   \<and> spawnInterval 3 = Finite (7330077518506667 / 8796093022208)"
  using difficulty_parameters [of 3]
  by (simp add: spawnInterval_values spawnRate_def)

text \<open>
  C6, as it is specified. At level 3 the rate is 6 and the exact value of
  \<open>max(500, 5000 / 6)\<close> is \<open>2500 / 3\<close>, which no double equals. The code computes the
  double nearest to it, \<open>7330077518506667 / 2 ^ 43\<close>, so the spawn interval is not the
  exact value of the formula.
\<close>

theorem spawnInterval_level_3_inexact:
  "spawnRate 3 = 6
   \<and> max 500 (5000 / of_int (spawnRate 3)) = (2500 / 3 :: rat)
   \<and> spawnInterval 3 = Finite (7330077518506667 / 8796093022208)
   \<and> spawnInterval 3 \<noteq> Finite (max 500 (5000 / of_int (spawnRate 3)))"
proof -
  have r: "spawnRate 3 = 6"
    by (simp add: spawnRate_def)
  have v: "spawnInterval 3 = Finite (7330077518506667 / 8796093022208)"
    by (rule spawnInterval_values)
  show ?thesis
    by (simp add: r v)
qed

subsection \<open>Hit rate\<close>

text \<open>
  C7, as the code has it. \<open>hitRate\<close> is 0 when nothing was spawned. Otherwise it is
  \<open>Math.round\<close> of the product by 100 of the quotient \<open>score / totalSpawned\<close>, where the
  quotient and the product are each rounded to a double. For a score from 0 to below
  \<open>2 ^ 43\<close> that is the nearest integer to the exact value of
  \<open>score / totalSpawned * 100\<close> whenever the exact value is not halfway between two
  integers; when it is halfway, \<open>hitRate\<close> is the greater of the two integers or the
  smaller one. A score of 15 with 20 spawned gives 75.
\<close>

theorem hitRate_double:
  "(totalSpawned s = 0 \<longrightarrow> hitRate s = 0)
   \<and> (totalSpawned s \<noteq> 0 \<longrightarrow>
        hitRate s =
          Math_round (double (double (of_int (score s) / of_int (totalSpawned s)) * 100)))
   \<and> (0 \<le> score s \<and> score s < 2 ^ 43 \<and> 0 < totalSpawned s \<longrightarrow>
        (frac (of_int (score s) / of_int (totalSpawned s) * 100 :: rat) \<noteq> 1 / 2 \<longrightarrow>
           hitRate s = round (of_int (score s) / of_int (totalSpawned s) * 100 :: rat))
        \<and> (frac (of_int (score s) / of_int (totalSpawned s) * 100 :: rat) = 1 / 2 \<longrightarrow>
           hitRate s = round (of_int (score s) / of_int (totalSpawned s) * 100 :: rat)
           \<or> hitRate s = round (of_int (score s) / of_int (totalSpawned s) * 100 :: rat) - 1))
   \<and> hitRate (s\<lparr>score := 15, totalSpawned := 20\<rparr>) = 75"
proof (intro conjI impI)
  show "hitRate (s\<lparr>score := 15, totalSpawned := 20\<rparr>) = 75"
  proof -
    have "Math_round (double (double (15 / 20) * 100)) = 75"
      by code_simp
    then show ?thesis
      by (simp add: hitRate_def)
  qed
next
  assume b: "0 \<le> score s \<and> score s < 2 ^ 43 \<and> 0 < totalSpawned s"
  have x: "(of_int (score s) / of_int (totalSpawned s) * 100 :: rat)
             = 100 * of_int (score s) / of_int (totalSpawned s)"
    by simp
  have h: "hitRate s =
             Math_round (double (double (of_int (score s) / of_int (totalSpawned s)) * 100))"
    using b by (simp add: hitRate_def)
  {
    assume "frac (of_int (score s) / of_int (totalSpawned s) * 100 :: rat) \<noteq> 1 / 2"
    then show "hitRate s = round (of_int (score s) / of_int (totalSpawned s) * 100 :: rat)"
      using b hitRate_exact [of "score s" "totalSpawned s"] unfolding x h by blast
  }
  {
    assume "frac (of_int (score s) / of_int (totalSpawned s) * 100 :: rat) = 1 / 2"
    then show "hitRate s = round (of_int (score s) / of_int (totalSpawned s) * 100 :: rat)
           \<or> hitRate s = round (of_int (score s) / of_int (totalSpawned s) * 100 :: rat) - 1"
      using b hitRate_exact [of "score s" "totalSpawned s"] unfolding x h by blast
  }
qed (simp_all add: hitRate_def)

text \<open>
  Nothing spawned gives 0. 15 of 20 is not a tie. 1 of 8 is a tie, 12.5, and the doubles
  are exact there: the greater integer is taken.
\<close>

theorem hitRate_double_witness:
  "hitRate mountedGame = 0
   \<and> hitRate (mountedGame\<lparr>score := 15, totalSpawned := 20\<rparr>) = 75
   \<and> hitRate (mountedGame\<lparr>score := 15, totalSpawned := 20\<rparr>) = round ((15::rat) / 20 * 100)
   \<and> frac ((1::rat) / 8 * 100) = 1 / 2
   \<and> hitRate (mountedGame\<lparr>score := 1, totalSpawned := 8\<rparr>) = round ((1::rat) / 8 * 100)"
proof -
  have f: "frac ((15::rat) / 20 * 100) = 0"
    by (simp add: frac_def)
  have fl: "\<lfloor>(25::rat) / 2\<rfloor> = 12"
    by linarith
  then have g: "frac ((1::rat) / 8 * 100) = 1 / 2"
    by (simp add: frac_def)
  have h: "hitRate (mountedGame\<lparr>score := 1, totalSpawned := 8\<rparr>) = 13"
    by code_simp
  have r: "round ((1::rat) / 8 * 100) = 13"
    by code_simp
  show ?thesis
    using hitRate_double [of "mountedGame\<lparr>score := 15, totalSpawned := 20\<rparr>"]
      hitRate_double [of mountedGame]
      hitRate_double [of "mountedGame\<lparr>score := 1, totalSpawned := 8\<rparr>"] f g h r
    by (simp add: mountedGame_def initBoard_def initialGame_def)
qed

text \<open>
  C7, as it is specified. With 23 hits of 40 spawned the exact value is 57.5, which
  rounds to 58. The quotient 23 / 40 as a double is just below 0.575 and its product by
  100 is the double just below 57.5, so \<open>hitRate\<close> is 57.
\<close>

theorem hitRate_tie_23_of_40:
  "hitRate (mountedGame\<lparr>score := 23, totalSpawned := 40\<rparr>) = 57
   \<and> round ((23::rat) / 40 * 100) = 58
   \<and> hitRate (mountedGame\<lparr>score := 23, totalSpawned := 40\<rparr>) \<noteq> round ((23::rat) / 40 * 100)"
proof -
  have a: "hitRate (mountedGame\<lparr>score := 23, totalSpawned := 40\<rparr>) = 57"
    by code_simp
  have b: "round ((23::rat) / 40 * 100) = 58"
    by code_simp
  show ?thesis
    using a b by simp
qed

subsection \<open>Spawner tick\<close>

text \<open>
  C8. When every cell of the board is active, \<open>spawnWhiteBlock\<close> returns without an error
  and leaves the state as it is. Otherwise, for the index \<open>k\<close> that the random draw
  yields, it returns without an error: one cell \<open>i\<close> that was inactive is now active with
  \<open>timeLeft = whiteDuration * 1000\<close>, \<open>totalSpawned\<close> is one higher, and every other cell,
  the score and all other refs are as before. There is a free cell exactly when the list
  of available cells is not empty.
\<close>

theorem spawnWhiteBlock_tick:
  "((\<forall>c \<in> set (gameBoard s). isActive c) \<longrightarrow> spawnWhiteBlock k s = Inr s)
   \<and> (k < length (availableCells s) \<longrightarrow>
        (\<exists>i < length (gameBoard s). \<not> isActive (gameBoard s ! i)
           \<and> spawnWhiteBlock k s =
               Inr (s\<lparr>gameBoard := (gameBoard s)
                          [i := (gameBoard s ! i)
                             \<lparr>isActive := True, timeLeft := whiteDuration (level s) * 1000\<rparr>],
                       totalSpawned := totalSpawned s + 1\<rparr>)))
   \<and> (0 < length (availableCells s)) = (\<exists>c \<in> set (gameBoard s). \<not> isActive c)"
proof (intro conjI impI)
  assume "\<forall>c \<in> set (gameBoard s). isActive c"
  then have "availableCells s = []"
    by (simp add: availableCells_empty_iff)
  then show "spawnWhiteBlock k s = Inr s"
    by (simp add: spawnWhiteBlock_def)
next
  assume k: "k < length (availableCells s)"
  let ?i = "availableCells s ! k"
  have "?i < length (gameBoard s) \<and> \<not> isActive (gameBoard s ! ?i)"
    using k by (rule availableCells_nth)
  moreover have "spawnWhiteBlock k s =
      Inr (s\<lparr>gameBoard := (gameBoard s)
                 [?i := (gameBoard s ! ?i)
                    \<lparr>isActive := True, timeLeft := whiteDuration (level s) * 1000\<rparr>],
              totalSpawned := totalSpawned s + 1\<rparr>)"
    using k by (auto simp: spawnWhiteBlock_def Let_def)
  ultimately show "\<exists>i < length (gameBoard s). \<not> isActive (gameBoard s ! i)
           \<and> spawnWhiteBlock k s =
               Inr (s\<lparr>gameBoard := (gameBoard s)
                          [i := (gameBoard s ! i)
                             \<lparr>isActive := True, timeLeft := whiteDuration (level s) * 1000\<rparr>],
                       totalSpawned := totalSpawned s + 1\<rparr>)"
    by blast
next
  show "(0 < length (availableCells s)) = (\<exists>c \<in> set (gameBoard s). \<not> isActive c)"
    using availableCells_empty_iff [of s] by auto
qed

text \<open>
  On a fresh board the draw \<open>k = 5\<close> puts the block on cell 5. On a board whose only
  cell is active nothing happens.
\<close>

theorem spawnWhiteBlock_tick_witness:
  "spawnWhiteBlock 5 runningGame = Inr oneBlockGame
   \<and> totalSpawned oneBlockGame = totalSpawned runningGame + 1
   \<and> score oneBlockGame = score runningGame
   \<and> spawnWhiteBlock 0 (runningGame\<lparr>gameBoard := [(newCell 0 0)\<lparr>isActive := True\<rparr>]\<rparr>)
        = Inr (runningGame\<lparr>gameBoard := [(newCell 0 0)\<lparr>isActive := True\<rparr>]\<rparr>)"
  using spawnWhiteBlock_tick [of runningGame 5]
    spawnWhiteBlock_tick [of "runningGame\<lparr>gameBoard := [(newCell 0 0)\<lparr>isActive := True\<rparr>]\<rparr>" 0]
  by (simp add: spawn_cell5 oneBlockGame_simps runningGame_simps)

subsection \<open>Stop and reset\<close>

text \<open>
  C10. \<open>stopGame\<close> sets \<open>isGameRunning\<close> to false and the three timer refs to \<open>null\<close>,
  and changes nothing else: the board with every field of every cell, the score, the
  spawn count and the remaining time are as before. This holds in every state whose
  handles are ones \<open>setInterval\<close> returns, running or not.
\<close>

theorem stopGame_frame:
  "timersOk s \<longrightarrow>
     stopGame s = s\<lparr>isGameRunning := False, gameInterval := None,
                    updateInterval := None, gameTimer := None\<rparr>
     \<and> gameBoard (stopGame s) = gameBoard s \<and> score (stopGame s) = score s
     \<and> totalSpawned (stopGame s) = totalSpawned s \<and> gameTimeLeft (stopGame s) = gameTimeLeft s"
  by (simp add: stopGame_timersOk stopGame_fields)

text \<open>Stopping the round with one block on cell 5 leaves the block where it is.\<close>

theorem stopGame_frame_witness:
  "timersOk oneBlockGame
   \<and> stopGame oneBlockGame = oneBlockGame\<lparr>isGameRunning := False, gameInterval := None,
                    updateInterval := None, gameTimer := None\<rparr>
   \<and> gameBoard (stopGame oneBlockGame) ! 5 = (newCell 0 5)\<lparr>isActive := True, timeLeft := 5000\<rparr>
   \<and> totalSpawned (stopGame oneBlockGame) = 1"
  using stopGame_frame [of oneBlockGame]
  by (simp add: oneBlockGame_simps)

text \<open>
  C9. \<open>resetGame\<close> twice gives the state that \<open>resetGame\<close> once gives: a board of 72
  cells, all inactive with \<open>timeLeft = 0\<close> and not animating, score and spawn count 0, 60
  seconds on the clock, not running, and (for handles that \<open>setInterval\<close> returns) the
  three timer refs \<open>null\<close>.
\<close>

theorem resetGame_idempotent:
  "resetGame (resetGame s) = resetGame s
   \<and> length (gameBoard (resetGame s)) = 72
   \<and> (\<forall>c \<in> set (gameBoard (resetGame s)). \<not> isActive c \<and> timeLeft c = 0 \<and> \<not> isAnimating c)
   \<and> score (resetGame s) = 0 \<and> totalSpawned (resetGame s) = 0
   \<and> gameTimeLeft (resetGame s) = 60 \<and> \<not> isGameRunning (resetGame s)
   \<and> (timersOk s \<longrightarrow> gameInterval (resetGame s) = None
         \<and> updateInterval (resetGame s) = None \<and> gameTimer (resetGame s) = None)"
proof (intro conjI)
  have "stopGame (resetGame s) =
          (stopGame s)\<lparr>gameBoard := freshBoard, score := 0, totalSpawned := 0,
                       gameTimeLeft := 60, isGameRunning := False\<rparr>"
    by (cases "gameInterval s"; cases "updateInterval s"; cases "gameTimer s")
       (simp_all add: resetGame_def initBoard_def stopGame_def truthy_def Let_def)
  then show "resetGame (resetGame s) = resetGame s"
    by (simp add: resetGame_def initBoard_def)
  show "timersOk s \<longrightarrow> gameInterval (resetGame s) = None
         \<and> updateInterval (resetGame s) = None \<and> gameTimer (resetGame s) = None"
    by (simp add: resetGame_def initBoard_def stopGame_timersOk)
qed (auto simp: resetGame_def initBoard_def length_freshBoard freshBoard_cells)

text \<open>Resetting the round with one block on cell 5.\<close>

theorem resetGame_idempotent_witness:
  "timersOk oneBlockGame
   \<and> resetGame (resetGame oneBlockGame) = resetGame oneBlockGame
   \<and> gameBoard (resetGame oneBlockGame) = freshBoard
   \<and> totalSpawned (resetGame oneBlockGame) = 0
   \<and> gameInterval (resetGame oneBlockGame) = None
   \<and> updateInterval (resetGame oneBlockGame) = None
   \<and> gameTimer (resetGame oneBlockGame) = None"
  using resetGame_idempotent [of oneBlockGame]
  by (simp add: oneBlockGame_simps resetGame_def initBoard_def)

subsection \<open>Clicking\<close>

text \<open>
  What \<open>clickCell\<close> and its timeout do. The click is ignored when the game is not running
  or the cell is not active. Otherwise, whether the cell is animating or not, the cell
  becomes animating and the score goes up by one. The timeout makes the cell inactive and
  not animating with \<open>timeLeft = 0\<close> and changes nothing else.
\<close>

lemma clickCell_effect:
  "(\<not> isGameRunning s \<or> \<not> isActive (gameBoard s ! i) \<longrightarrow> clickCell i s = s)
   \<and> (i < length (gameBoard s) \<and> isGameRunning s \<and> isActive (gameBoard s ! i) \<longrightarrow>
         clickCell i s = s\<lparr>gameBoard := (gameBoard s)[i := (gameBoard s ! i)\<lparr>isAnimating := True\<rparr>],
                           score := score s + 1\<rparr>)
   \<and> (i < length (gameBoard s) \<longrightarrow>
         gameBoard (clickCellTimeout i s) ! i =
           (gameBoard s ! i)\<lparr>isActive := False, isAnimating := False, timeLeft := 0\<rparr>
         \<and> clickCellTimeout i s = s\<lparr>gameBoard := gameBoard (clickCellTimeout i s)\<rparr>
         \<and> (\<forall>j. j \<noteq> i \<longrightarrow> gameBoard (clickCellTimeout i s) ! j = gameBoard s ! j))"
  by (simp add: clickCell_def clickCellTimeout_def Let_def)

text \<open>
  C1 at a running round with a block on cell 5. The first click makes the cell animating
  and the score 1. The specification has a click on an animating cell change nothing; in
  the code the second click, before the timeout of the first, changes the state: the score is 2.
\<close>

theorem clickCell_scores_animating_cell:
  "isGameRunning (clickCell 5 oneBlockGame)
   \<and> isActive (gameBoard (clickCell 5 oneBlockGame) ! 5)
   \<and> isAnimating (gameBoard (clickCell 5 oneBlockGame) ! 5)
   \<and> score (clickCell 5 oneBlockGame) = 1
   \<and> clickCell 5 (clickCell 5 oneBlockGame) \<noteq> clickCell 5 oneBlockGame
   \<and> score (clickCell 5 (clickCell 5 oneBlockGame)) = 2"
proof -
  have b: "score (clickCell 5 (clickCell 5 oneBlockGame)) = 2"
    by (simp add: click_cell5 clickCell_def Let_def oneBlockGame_simps)
  have c: "score (clickCell 5 oneBlockGame) = 1"
    by (simp add: click_cell5)
  from b c have d: "clickCell 5 (clickCell 5 oneBlockGame) \<noteq> clickCell 5 oneBlockGame"
    by auto
  show ?thesis
    using b c d by (simp add: click_cell5 oneBlockGame_simps)
qed

theorem clickCell_scores_animating_cell_witness:
  "isAnimating (gameBoard (clickCell 5 oneBlockGame) ! 5)
   \<and> score (clickCell 5 (clickCell 5 oneBlockGame)) = score (clickCell 5 oneBlockGame) + 1"
  using clickCell_scores_animating_cell by simp

subsection \<open>Score and spawn count\<close>

text \<open>
  C2 on a trace of a round. The round starts with score 0, spawn count 0 and an empty
  board. The spawner puts a block on cell 5 and the player clicks the cell twice before
  the timeout of the first click has run. The score is then 2 and the spawn count 1.
\<close>

theorem score_exceeds_totalSpawned:
  "score runningGame = 0 \<and> totalSpawned runningGame = 0
   \<and> list_all (\<lambda>c. \<not> isActive c) (gameBoard runningGame)
   \<and> run [SpawnTick 5, Click 5, Click 5] runningGame
        = Inr (clickCell 5 (clickCell 5 oneBlockGame))
   \<and> score (clickCell 5 (clickCell 5 oneBlockGame)) = 2
   \<and> totalSpawned (clickCell 5 (clickCell 5 oneBlockGame)) = 1
   \<and> \<not> score (clickCell 5 (clickCell 5 oneBlockGame))
          \<le> totalSpawned (clickCell 5 (clickCell 5 oneBlockGame))"
proof -
  have b: "score (clickCell 5 (clickCell 5 oneBlockGame)) = 2"
    by (simp add: click_cell5 clickCell_def Let_def oneBlockGame_simps)
  have c: "totalSpawned (clickCell 5 (clickCell 5 oneBlockGame)) = 1"
    by (simp add: click_cell5 clickCell_def Let_def oneBlockGame_simps)
  have d: "list_all (\<lambda>c. \<not> isActive c) freshBoard"
    using freshBoard_cells by (auto simp: list_all_iff)
  show ?thesis
    by (simp add: b c d runningGame_simps spawn_cell5)
qed

theorem score_exceeds_totalSpawned_witness:
  "run [SpawnTick 5, Click 5, Click 5] runningGame
        = Inr (clickCell 5 (clickCell 5 oneBlockGame))
   \<and> totalSpawned (clickCell 5 (clickCell 5 oneBlockGame))
        < score (clickCell 5 (clickCell 5 oneBlockGame))"
  using score_exceeds_totalSpawned by simp

subsection \<open>The cell invariant\<close>

text \<open>
  C5. \<open>boardOk\<close> says that no cell of the board is inactive with \<open>timeLeft > 0\<close> and no
  cell has a negative \<open>timeLeft\<close>. It holds once \<open>initBoard\<close> has built the board, and
  every operation keeps it: the spawner, a decay tick, a click and its timeout, start,
  stop and reset.
\<close>

theorem cell_invariant:
  "boardOk s = (\<forall>c \<in> set (gameBoard s). \<not> (\<not> isActive c \<and> 0 < timeLeft c) \<and> \<not> timeLeft c < 0)
   \<and> boardOk (initBoard s)
   \<and> (boardOk s \<longrightarrow>
        (\<forall>s'. spawnWhiteBlock k s = Inr s' \<longrightarrow> boardOk s')
        \<and> boardOk (updateGame s)
        \<and> boardOk (clickCell i s)
        \<and> boardOk (clickCellTimeout i s)
        \<and> boardOk (startGame h1 h2 h3 s)
        \<and> boardOk (stopGame s)
        \<and> boardOk (resetGame s))"
proof (intro conjI impI allI)
  show "boardOk s = (\<forall>c \<in> set (gameBoard s). \<not> (\<not> isActive c \<and> 0 < timeLeft c) \<and> \<not> timeLeft c < 0)"
    by (auto simp: boardOk_def cellOk_def list_all_iff)
  show "boardOk (initBoard s)"
    by (simp add: boardOk_def initBoard_def boardOk_freshBoard)
  show "boardOk (startGame h1 h2 h3 s)"
    by (simp add: boardOk_def startGame_def initBoard_def boardOk_freshBoard)
  show "boardOk (resetGame s)"
    by (simp add: boardOk_def resetGame_def initBoard_def boardOk_freshBoard)
next
  fix s'
  assume "boardOk s" "spawnWhiteBlock k s = Inr s'"
  then show "boardOk s'"
    by (rule boardOk_spawn)
next
  assume ok: "boardOk s"
  show "boardOk (updateGame s)"
    using ok by (rule boardOk_updateGame)
  show "boardOk (clickCell i s)"
    using ok by (rule boardOk_clickCell)
  show "boardOk (clickCellTimeout i s)"
    using ok by (rule boardOk_clickCellTimeout)
  show "boardOk (stopGame s)"
    using ok by (simp add: boardOk_def stopGame_fields)
qed

text \<open>
  From the mounted component through start, spawn, decay, click and timeout, and through
  stop and reset.
\<close>

theorem cell_invariant_witness:
  "boardOk runningGame \<and> boardOk oneBlockGame \<and> boardOk (updateGame oneBlockGame)
   \<and> boardOk (clickCellTimeout 5 (clickCell 5 oneBlockGame))
   \<and> boardOk (stopGame oneBlockGame) \<and> boardOk (resetGame oneBlockGame)"
proof -
  have a: "boardOk mountedGame"
    using cell_invariant [where s = initialGame] by (simp add: mountedGame_def)
  have b: "boardOk runningGame"
    using a cell_invariant [where s = mountedGame and ?h1.0 = 1 and ?h2.0 = 2 and ?h3.0 = 3]
    by (simp add: runningGame_def)
  have c: "boardOk oneBlockGame"
    using b cell_invariant [where s = runningGame and k = 5] by (simp add: spawn_cell5)
  have d: "boardOk (updateGame oneBlockGame)"
    using c cell_invariant [where s = oneBlockGame] by simp
  have e: "boardOk (clickCell 5 oneBlockGame)"
    using c cell_invariant [where s = oneBlockGame and i = 5] by simp
  have f: "boardOk (clickCellTimeout 5 (clickCell 5 oneBlockGame))"
    using e cell_invariant [where s = "clickCell 5 oneBlockGame" and i = 5] by simp
  have g: "boardOk (stopGame oneBlockGame) \<and> boardOk (resetGame oneBlockGame)"
    using c cell_invariant [where s = oneBlockGame] by simp
  from b c d f g show ?thesis
    by simp
qed

end
